theory Spec2Isabelle
  imports Main
begin

section \<open>Strings\<close>

text \<open>
  Go strings are byte sequences; they are modelled as \<open>string\<close> (a list of bytes), so
  \<open>length\<close> is Go's \<open>len\<close>.

  \<open>ToUpper\<close> is \<open>strings.ToUpper\<close>. On a string of ASCII bytes only, the bytes \<open>a\<close> .. \<open>z\<close>
  (97 .. 122) lose 32, which clears bit 5, and every other byte is kept. On a string with
  a byte above 127 the library maps the runes of the string through its Unicode case
  tables (\<open>strings.Map(unicode.ToUpper, s)\<close>), which can change the byte length. That
  path is library code and is a parameter, \<open>mapUpper\<close>, of \<open>ToUpper\<close> and of the functions
  that call it: what is proved holds for every such function.
\<close>

definition toUpperChar :: "char \<Rightarrow> char" where
  "toUpperChar c =
     (let n = (of_char c :: nat) in
      if 97 \<le> n \<and> n \<le> 122
      then (case c of Char b0 b1 b2 b3 b4 b5 b6 b7 \<Rightarrow> Char b0 b1 b2 b3 b4 False b6 b7)
      else c)"

definition isASCII :: "string \<Rightarrow> bool" where
  "isASCII s = list_all (\<lambda>c. (of_char c :: nat) < 128) s"

definition ToUpper :: "(string \<Rightarrow> string) \<Rightarrow> string \<Rightarrow> string" where
  "ToUpper mapUpper s = (if isASCII s then map toUpperChar s else mapUpper s)"

text \<open>
  \<open>split sep s\<close> is \<open>strings.Split(s, sep)\<close> for a one-byte separator: the pieces of \<open>s\<close>
  between all occurrences of \<open>sep\<close>, so the result has one more element than \<open>s\<close> has
  separators, and the empty string gives one empty piece.
\<close>

fun split :: "char \<Rightarrow> string \<Rightarrow> string list" where
  "split sep [] = [[]]"
| "split sep (c # cs) =
     (if c = sep then [] # split sep cs
      else (c # hd (split sep cs)) # tl (split sep cs))"

section \<open>Destination table and startup validation\<close>

text \<open>
  \<open>destinationMap\<close> is a Go \<open>map[string][]string\<close>. Reading a missing key gives the nil
  slice, which \<open>mapGet\<close> returns as the empty list; \<open>append\<close> on it starts a new list.
\<close>

type_synonym table = "string \<rightharpoonup> string list"

definition mapGet :: "table \<Rightarrow> string \<Rightarrow> string list" where
  "mapGet m k = (case m k of None \<Rightarrow> [] | Some v \<Rightarrow> v)"

text \<open>
  The errors \<open>argsHandler\<close> returns, one constructor for each \<open>errors.New\<close> with the values
  its message is formatted from. \<open>HelpExit\<close> is the exit through
  \<open>cli.ShowAppHelpAndExit\<close>.
\<close>

datatype config_error =
    HelpExit
  | EmptyMapping
  | InvalidMappingFormat string
  | InvalidCountryCode string
  | InvalidTarget string string
  | DefaultNotInMap string

text \<open>The body of the loop over the mapping directives, for one directive.\<close>

definition addMapping :: "(string \<Rightarrow> string) \<Rightarrow> table \<Rightarrow> string \<Rightarrow> config_error + table" where
  "addMapping mapUpper m v =
     (let splitedMap = split CHR '':'' v in
      if length splitedMap \<noteq> 2 then Inl (InvalidMappingFormat v)
      else
        let country = ToUpper mapUpper (splitedMap ! 0) in
        if length country \<noteq> 2 then Inl (InvalidCountryCode country)
        else
          let target = splitedMap ! 1 in
          if length target < 1 then Inl (InvalidTarget country target)
          else Inr (m(country \<mapsto> mapGet m country @ [target])))"

fun mappingLoop :: "(string \<Rightarrow> string) \<Rightarrow> table \<Rightarrow> string list \<Rightarrow> config_error + table" where
  "mappingLoop mapUpper m [] = Inr m"
| "mappingLoop mapUpper m (v # vs) =
     (case addMapping mapUpper m v of
        Inl e \<Rightarrow> Inl e
      | Inr m' \<Rightarrow> mappingLoop mapUpper m' vs)"

text \<open>
  The two globals the resolver reads. \<open>defaultTarget\<close> holds the default country code
  (the value of the \<open>default\<close> flag, upper-cased), not a target.
\<close>

record config =
  destinationMap :: table
  defaultTarget :: string

definition argsHandler ::
  "(string \<Rightarrow> string) \<Rightarrow> bool \<Rightarrow> string list \<Rightarrow> string \<Rightarrow> config_error + config" where
  "argsHandler mapUpper needHelp mapping dflt =
     (if needHelp then Inl HelpExit
      else if length mapping < 1 then Inl EmptyMapping
      else
        (case mappingLoop mapUpper Map.empty mapping of
           Inl e \<Rightarrow> Inl e
         | Inr m \<Rightarrow>
             let d = ToUpper mapUpper dflt in
             if m d = None then Inl (DefaultNotInMap d)
             else Inr \<lparr>destinationMap = m, defaultTarget = d\<rparr>))"

text \<open>
  The start of \<open>main\<close>: an error from the argument handler ends the process in
  \<open>log.Fatalf\<close> before \<open>net.Listen\<close> is reached; \<open>listenOk\<close> says whether \<open>net.Listen\<close>
  succeeds.
\<close>

datatype startup = Exited config_error | ListenFailed | Serving config

definition main_startup ::
  "(string \<Rightarrow> string) \<Rightarrow> bool \<Rightarrow> string list \<Rightarrow> string \<Rightarrow> bool \<Rightarrow> startup" where
  "main_startup mapUpper needHelp mapping dflt listenOk =
     (case argsHandler mapUpper needHelp mapping dflt of
        Inl e \<Rightarrow> Exited e
      | Inr c \<Rightarrow> if listenOk then Serving c else ListenFailed)"

section \<open>The collaborators and the state of a resolution\<close>

text \<open>
  DNS, the geo-IP database and the random source are outside the program. A \<open>world\<close>
  fixes what they answer: \<open>net.LookupMX\<close> and \<open>net.LookupIP\<close> return a Go error
  (\<open>Inl\<close>, the message) or a list; \<open>geoip2.Open\<close> succeeds or not; \<open>db.Country\<close> returns
  an error or the record's \<open>Country.IsoCode\<close>, which is the empty string when the database
  has no country for the address. The generator is re-seeded from the clock
  before it is used, so its draws are arbitrary: \<open>rnd w k\<close> is the raw value of the
  \<open>k\<close>-th draw.
\<close>

type_synonym ip = string

record mx =
  Host :: string
  Pref :: nat

record world =
  lookupMX :: "string \<Rightarrow> string + mx list"
  lookupIP :: "string \<Rightarrow> string + ip list"
  geoOpen :: bool
  geoCountry :: "ip \<Rightarrow> string + string"
  rnd :: "nat \<Rightarrow> nat"

text \<open>
  The state threaded through a resolution: the trace of the collaborator calls made so
  far, in order, and the number of random draws taken.
\<close>

datatype event = LookupMX string | LookupIP string | GeoCountry ip

record rstate =
  calls :: "event list"
  draws :: nat

definition logCall :: "event \<Rightarrow> rstate \<Rightarrow> rstate" where
  "logCall e s = s\<lparr>calls := calls s @ [e]\<rparr>"

text \<open>
  What ends the process instead of returning: a run-time panic (an index or a slice
  bound out of range, \<open>rand.Intn\<close> with an argument that is not positive) or
  \<open>log.Fatalf\<close>.
\<close>

datatype fault = IndexOutOfRange | SliceBoundsOutOfRange | IntnNotPositive | FatalGeoOpen

text \<open>\<open>rand.Intn(n)\<close>: panics if \<open>n \<le> 0\<close>, else a value in \<open>[0, n)\<close>.\<close>

definition Intn :: "world \<Rightarrow> rstate \<Rightarrow> nat \<Rightarrow> (fault + nat) \<times> rstate" where
  "Intn w s n =
     (if n = 0 then (Inl IntnNotPositive, s)
      else (Inr (rnd w (draws s) mod n), s\<lparr>draws := draws s + 1\<rparr>))"

text \<open>\<open>xs[i]\<close> on a slice: a panic when \<open>i\<close> is not below the length.\<close>

definition sliceIndex :: "'a list \<Rightarrow> nat \<Rightarrow> fault + 'a" where
  "sliceIndex xs i = (if i < length xs then Inr (xs ! i) else Inl IndexOutOfRange)"

section \<open>The resolver\<close>

text \<open>
  The errors made by the resolver's own functions, one constructor for each
  \<open>errors.New\<close> with the value its message carries. The errors of the collaborators are
  passed on as they are, as their message.
\<close>

datatype resolve_error = EmailAddressInvalid string | GetIpError | NoIpFromMx string

definition getEmailDomain :: "string \<Rightarrow> resolve_error + string" where
  "getEmailDomain email =
     (let splitedEmail = split CHR ''@'' email in
      if length splitedEmail \<noteq> 2 then Inl (EmailAddressInvalid email)
      else Inr (splitedEmail ! 1))"

definition getMx :: "world \<Rightarrow> rstate \<Rightarrow> string \<Rightarrow> (string + mx list) \<times> rstate" where
  "getMx w s domain = (lookupMX w domain, logCall (LookupMX domain) s)"

definition getIp :: "world \<Rightarrow> rstate \<Rightarrow> mx \<Rightarrow> (fault + (resolve_error + ip)) \<times> rstate" where
  "getIp w s m =
     (let s1 = logCall (LookupIP (Host m)) s in
      case lookupIP w (Host m) of
        Inl e \<Rightarrow> (Inr (Inl GetIpError), s1)
      | Inr ips \<Rightarrow>
          if length ips = 1 then (Inr (Inr (ips ! 0)), s1)
          else if length ips > 1 then
            (case Intn w s1 (length ips) of
               (Inl f, s2) \<Rightarrow> (Inl f, s2)
             | (Inr i, s2) \<Rightarrow> (Inr (Inr (ips ! i)), s2))
          else (Inr (Inl (NoIpFromMx (Host m))), s1))"

definition getCountryByIp :: "world \<Rightarrow> rstate \<Rightarrow> ip \<Rightarrow> (fault + (string + string)) \<times> rstate" where
  "getCountryByIp w s ipAddress =
     (let s1 = logCall (GeoCountry ipAddress) s in
      if \<not> geoOpen w then (Inl FatalGeoOpen, s1)
      else
        (case geoCountry w ipAddress of
           Inl e \<Rightarrow> (Inr (Inl e), s1)
         | Inr isoCode \<Rightarrow> (Inr (Inr isoCode), s1)))"

definition genPostfixResponse :: "string \<Rightarrow> string" where
  "genPostfixResponse destination = ''200 relay:['' @ destination @ '']'' @ [CHR 0x0A]"

text \<open>
  The loop over the MX records in \<open>getResult\<close>: \<open>continue\<close> is the recursive call on the
  rest of the list, \<open>break\<close> and the end of the list return the destination.
\<close>

fun mxLoop :: "world \<Rightarrow> config \<Rightarrow> string \<Rightarrow> mx list \<Rightarrow> rstate \<Rightarrow> (fault + string) \<times> rstate" where
  "mxLoop w c destination [] s = (Inr destination, s)"
| "mxLoop w c destination (m # ms) s =
     (case getIp w s m of
        (Inl f, s1) \<Rightarrow> (Inl f, s1)
      | (Inr (Inl ipErr), s1) \<Rightarrow> mxLoop w c destination ms s1
      | (Inr (Inr ip), s1) \<Rightarrow>
          (case getCountryByIp w s1 ip of
             (Inl f, s2) \<Rightarrow> (Inl f, s2)
           | (Inr (Inl countryErr), s2) \<Rightarrow> mxLoop w c destination ms s2
           | (Inr (Inr country), s2) \<Rightarrow>
               (case destinationMap c country of
                  None \<Rightarrow> (Inr destination, s2)
                | Some val \<Rightarrow>
                    (case Intn w s2 (length val) of
                       (Inl f, s3) \<Rightarrow> (Inl f, s3)
                     | (Inr i, s3) \<Rightarrow>
                         (case sliceIndex val i of
                            Inl f \<Rightarrow> (Inl f, s3)
                          | Inr t \<Rightarrow> (Inr t, s3))))))"

text \<open>
  The first statement of \<open>getResult\<close>, the pick of the fallback:
  \<open>destinationMap[defaultTarget][rand.Intn(len(defaultTarget))]\<close>. The bound given to
  \<open>rand.Intn\<close> is the length of the string \<open>defaultTarget\<close>.
\<close>

definition pickDefault :: "world \<Rightarrow> config \<Rightarrow> rstate \<Rightarrow> (fault + string) \<times> rstate" where
  "pickDefault w c s =
     (case Intn w s (length (defaultTarget c)) of
        (Inl f, s1) \<Rightarrow> (Inl f, s1)
      | (Inr i, s1) \<Rightarrow>
          (case sliceIndex (mapGet (destinationMap c) (defaultTarget c)) i of
             Inl f \<Rightarrow> (Inl f, s1)
           | Inr t \<Rightarrow> (Inr t, s1)))"

definition getResult :: "world \<Rightarrow> config \<Rightarrow> rstate \<Rightarrow> string \<Rightarrow> (fault + string) \<times> rstate" where
  "getResult w c s email =
     (case pickDefault w c s of
        (Inl f, s1) \<Rightarrow> (Inl f, s1)
      | (Inr destination, s1) \<Rightarrow>
          (case getEmailDomain email of
             Inl domainErr \<Rightarrow> (Inr destination, s1)
           | Inr domain \<Rightarrow>
               (case getMx w s1 domain of
                  (Inl mxErr, s2) \<Rightarrow> (Inr destination, s2)
                | (Inr mxs, s2) \<Rightarrow> mxLoop w c destination mxs s2)))"

section \<open>The connection handler\<close>

text \<open>
  The connection delivers the bytes \<open>inp\<close> and then ends. \<open>ReadBytes delim inp\<close> is
  \<open>bufio.Reader.ReadBytes\<close> on the bytes not yet read: the data up to and including the
  first \<open>delim\<close> and no error, or, when there is no \<open>delim\<close> left, all the data together
  with the error of the end of the stream; the last component is what remains unread.
\<close>

definition ReadBytes :: "char \<Rightarrow> string \<Rightarrow> (string \<times> bool) \<times> string" where
  "ReadBytes delim inp =
     (if delim \<in> set inp
      then ((takeWhile (\<lambda>c. c \<noteq> delim) inp @ [delim], False),
            tl (dropWhile (\<lambda>c. c \<noteq> delim) inp))
      else ((inp, True), []))"

text \<open>
  \<open>data[:length-1]\<close>: a panic when \<open>length - 1\<close> is negative, that is when the slice is
  empty.
\<close>

definition dropLast :: "string \<Rightarrow> fault + string" where
  "dropLast dat = (if length dat < 1 then Inl SliceBoundsOutOfRange else Inr (take (length dat - 1) dat))"

text \<open>
  \<open>handleConnection\<close> returns how the goroutine ends (\<open>Inr ()\<close>: the connection is closed
  and the handler returns), the strings written to the connection, in order, and the
  final state.
\<close>

function handleConnection :: "world \<Rightarrow> config \<Rightarrow> rstate \<Rightarrow> string \<Rightarrow> (fault + unit) \<times> string list \<times> rstate" where
  "handleConnection w c s inp =
     (case ReadBytes (CHR 0x0A) inp of
        ((dat, True), rest) \<Rightarrow> (Inr (), [], s)
      | ((dat, False), rest) \<Rightarrow>
          (case dropLast dat of
             Inl f \<Rightarrow> (Inl f, [], s)
           | Inr dataString \<Rightarrow>
               (case getResult w c s dataString of
                  (Inl f, s1) \<Rightarrow> (Inl f, [], s1)
                | (Inr result, s1) \<Rightarrow>
                    (case handleConnection w c s1 rest of
                       (out, written, s2) \<Rightarrow> (out, genPostfixResponse result # written, s2)))))"
  by pat_completeness auto

termination handleConnection
  apply (relation "measure (\<lambda>(w, c, s, inp). length inp)")
   apply simp
  apply (clarsimp simp: ReadBytes_def split: if_splits)
  subgoal for w c s inp
    using length_dropWhile_le [of "\<lambda>c. c \<noteq> CHR 0x0A" inp]
    by (cases inp) auto
  done

section \<open>Concrete configurations and collaborators\<close>

text \<open>
  The inputs the development is evaluated on. \<open>s0\<close> is the state before the first call.
  \<open>exampleWorld n geo r\<close> answers for the domain \<open>example.com\<close> with its first \<open>n\<close> of two
  MX hosts, each host having one address; \<open>geo\<close> is the answer of the country lookup and
  every random draw has the raw value \<open>r\<close>. Every other name fails to resolve.
\<close>

definition s0 :: rstate where
  "s0 = \<lparr>calls = [], draws = 0\<rparr>"

definition exampleWorld :: "nat \<Rightarrow> (ip \<Rightarrow> string + string) \<Rightarrow> nat \<Rightarrow> world" where
  "exampleWorld n geo r =
     \<lparr>lookupMX = (\<lambda>d. if d = ''example.com''
                       then Inr (take n [\<lparr>Host = ''mx1.example.com'', Pref = 10\<rparr>,
                                         \<lparr>Host = ''mx2.example.com'', Pref = 20\<rparr>])
                       else Inl ''no such host''),
      lookupIP = (\<lambda>h. if h = ''mx1.example.com'' then Inr [''192.0.2.1'']
                       else if h = ''mx2.example.com'' then Inr [''192.0.2.2'']
                       else Inl ''no such host''),
      geoOpen = True,
      geoCountry = geo,
      rnd = (\<lambda>k. r)\<rparr>"

text \<open>
  The two MX hosts of \<open>example.com\<close> in \<open>exampleWorld\<close>, and a host whose name does not
  resolve.
\<close>

definition mxHost1 :: mx where
  "mxHost1 = \<lparr>Host = ''mx1.example.com'', Pref = 10\<rparr>"

definition mxHost2 :: mx where
  "mxHost2 = \<lparr>Host = ''mx2.example.com'', Pref = 20\<rparr>"

definition mxUnknown :: mx where
  "mxUnknown = \<lparr>Host = ''mx0.example.com'', Pref = 5\<rparr>"

definition geoFirstNotFound :: "ip \<Rightarrow> string + string" where
  "geoFirstNotFound a = (if a = ''192.0.2.1'' then Inr [] else Inr ''DE'')"

definition geoAllDE :: "ip \<Rightarrow> string + string" where
  "geoAllDE a = Inr ''DE''"

definition geoAllFail :: "ip \<Rightarrow> string + string" where
  "geoAllFail a = Inl ''lookup failed''"

definition geoFirstFails :: "ip \<Rightarrow> string + string" where
  "geoFirstFails a = (if a = ''192.0.2.1'' then Inl ''lookup failed'' else Inr ''DE'')"

definition cfgSingle :: config where
  "cfgSingle = \<lparr>destinationMap = [''US'' \<mapsto> [''10.0.0.1'']], defaultTarget = ''US''\<rparr>"

definition cfgThree :: config where
  "cfgThree =
     \<lparr>destinationMap = [''US'' \<mapsto> [''10.0.0.1'', ''10.0.0.2'', ''10.0.0.3'']],
      defaultTarget = ''US''\<rparr>"

definition cfgScenario :: config where
  "cfgScenario =
     \<lparr>destinationMap = [''US'' \<mapsto> [''10.0.0.1'', ''10.0.0.2''], ''DE'' \<mapsto> [''10.0.0.3'']],
      defaultTarget = ''US''\<rparr>"

text \<open>
  \<open>longS\<close> is the string of the one rune U+017F, in UTF-8 the two bytes C5 BF.
  \<open>exampleMapUpper\<close> gives the answers of the library's rune-wise upper-casing that the
  examples use: \<open>longS\<close> upper-cases to \<open>S\<close>. Every other string is returned as it is, and
  no statement rests on that.
\<close>

definition longS :: string where
  "longS = [CHR 0xC5, CHR 0xBF]"

definition exampleMapUpper :: "string \<Rightarrow> string" where
  "exampleMapUpper s = (if s = longS then ''S'' else s)"

text \<open>
  \<open>geoAnswered w e\<close>: the call \<open>e\<close> is a country lookup that returned without error.
  \<open>isLookupIP e\<close>: the call \<open>e\<close> is an address lookup.
\<close>

definition isLookupIP :: "event \<Rightarrow> bool" where
  "isLookupIP e = (case e of LookupIP h \<Rightarrow> True | _ \<Rightarrow> False)"

definition geoAnswered :: "world \<Rightarrow> event \<Rightarrow> bool" where
  "geoAnswered w e =
     (case e of
        GeoCountry a \<Rightarrow> geoOpen w \<and> \<not> isl (geoCountry w a)
      | _ \<Rightarrow> False)"

section \<open>Evaluation of the concrete inputs\<close>

lemmas config_eval = ToUpper_def isASCII_def toUpperChar_def addMapping_def argsHandler_def
  mapGet_def Let_def

lemmas resolve_eval = getResult_def pickDefault_def Intn_def sliceIndex_def mapGet_def
  getEmailDomain_def getMx_def getIp_def getCountryByIp_def logCall_def Let_def

lemma cfgSingle_built: "argsHandler mu False [''US:10.0.0.1''] ''US'' = Inr cfgSingle"
  by (simp add: config_eval cfgSingle_def)

lemma cfgThree_built:
  "argsHandler mu False [''US:10.0.0.1'', ''US:10.0.0.2'', ''US:10.0.0.3''] ''US'' = Inr cfgThree"
  by (simp add: config_eval cfgThree_def)

lemma cfgScenario_built:
  "argsHandler mu False [''US:10.0.0.1'', ''US:10.0.0.2'', ''DE:10.0.0.3''] ''US'' = Inr cfgScenario"
  by (simp add: config_eval cfgScenario_def)

section \<open>Splitting\<close>

lemma split_not_Nil: "split sep s \<noteq> []"
  by (induction s) auto

lemma length_split: "length (split sep s) = Suc (count_list s sep)"
  by (induction s) (auto simp: split_not_Nil)

lemma split_no_sep: "sep \<notin> set a \<Longrightarrow> split sep a = [a]"
  by (induction a) auto

lemma split_one_sep:
  "sep \<notin> set a \<Longrightarrow> sep \<notin> set b \<Longrightarrow> split sep (a @ sep # b) = [a, b]"
  by (induction a) (auto simp: split_no_sep)

section \<open>The fallback pick\<close>

text \<open>
  C1. The claim: for a configuration accepted by the startup validation, \<open>getResult\<close>
  never fails, and the index of the fallback pick is always in bounds. The code bounds
  the random index by the length of the country code (2) instead of the length of the
  default country's target list. With the single directive \<open>US:10.0.0.1\<close> and default
  \<open>US\<close>, which the validation accepts, and an odd draw, the index is 1 in a list of one
  element: \<open>getResult\<close> panics, for every input line.
\<close>

theorem getResult_panics_on_single_default:
  "(\<forall>mu. argsHandler mu False [''US:10.0.0.1''] ''US'' = Inr cfgSingle)
   \<and> (\<forall>n geo email. getResult (exampleWorld n geo 1) cfgSingle s0 email
         = (Inl IndexOutOfRange, \<lparr>calls = [], draws = 1\<rparr>))"
  by (simp add: cfgSingle_built) (simp add: resolve_eval cfgSingle_def s0_def exampleWorld_def)

text \<open>
  C2. The claim: the fallback is picked uniformly from the whole target list of the
  default country, so every element of it can be picked. With three targets for the
  default country \<open>US\<close> the third one is never the fallback, whatever the random source
  returns: the index is a value below 2.
\<close>

theorem pickDefault_never_third_target:
  "(\<forall>mu. argsHandler mu False [''US:10.0.0.1'', ''US:10.0.0.2'', ''US:10.0.0.3''] ''US''
          = Inr cfgThree)
   \<and> ''10.0.0.3'' \<in> set (mapGet (destinationMap cfgThree) (defaultTarget cfgThree))
   \<and> (\<forall>w s. fst (pickDefault w cfgThree s) = Inr ''10.0.0.1''
            \<or> fst (pickDefault w cfgThree s) = Inr ''10.0.0.2'')"
proof -
  have "fst (pickDefault w cfgThree s) = Inr ''10.0.0.1''
        \<or> fst (pickDefault w cfgThree s) = Inr ''10.0.0.2''" for w s
  proof -
    have "rnd w (draws s) mod Suc (Suc 0) = 0 \<or> rnd w (draws s) mod Suc (Suc 0) = Suc 0"
      by arith
    then show ?thesis
      by (auto simp: pickDefault_def Intn_def sliceIndex_def mapGet_def cfgThree_def)
  qed
  then show ?thesis
    by (simp add: cfgThree_built) (simp add: cfgThree_def mapGet_def)
qed

section \<open>Reading a line\<close>

lemma ReadBytes_ok:
  assumes "ReadBytes delim inp = ((dat, False), rest)"
  shows "dat \<noteq> []" and "last dat = delim" and "inp = dat @ rest"
    and "dropLast dat = Inr (takeWhile (\<lambda>c. c \<noteq> delim) inp)"
proof -
  from assms have mem: "delim \<in> set inp"
    and d: "dat = takeWhile (\<lambda>c. c \<noteq> delim) inp @ [delim]"
    and r: "rest = tl (dropWhile (\<lambda>c. c \<noteq> delim) inp)"
    by (auto simp: ReadBytes_def split: if_splits)
  show "dat \<noteq> []" and "last dat = delim"
    using d by simp_all
  show "dropLast dat = Inr (takeWhile (\<lambda>c. c \<noteq> delim) inp)"
    using d by (simp add: dropLast_def)
  from mem have "dropWhile (\<lambda>c. c \<noteq> delim) inp \<noteq> []"
    by (simp add: dropWhile_eq_Nil_conv)
  then have "dropWhile (\<lambda>c. c \<noteq> delim) inp = delim # rest"
    using r hd_dropWhile [of "\<lambda>c. c \<noteq> delim" inp]
    by (cases "dropWhile (\<lambda>c. c \<noteq> delim) inp") auto
  then show "inp = dat @ rest"
    using d takeWhile_dropWhile_id [of "\<lambda>c. c \<noteq> delim" inp] by simp
qed

lemma ReadBytes_error_iff: "snd (fst (ReadBytes delim inp)) = (delim \<notin> set inp)"
  by (simp add: ReadBytes_def)

text \<open>
  C9. The claim: a read without error gives a non-empty slice ending in the delimiter,
  so stripping the last byte does not panic and the resolver gets the line without the
  terminator; and a bare newline gives the resolver the empty string and still produces
  a response. The first part holds (\<open>ReadBytes_ok\<close>). The second does not: with the
  configuration of one target for the default country and an odd draw, the handler
  panics in the fallback pick of \<open>getResult\<close> on the bare newline and writes nothing.
\<close>

theorem bare_newline_panics_on_single_default:
  "ReadBytes (CHR 0x0A) [CHR 0x0A] = (([CHR 0x0A], False), [])
   \<and> dropLast [CHR 0x0A] = Inr []
   \<and> handleConnection (exampleWorld 0 geoAllFail 1) cfgSingle s0 [CHR 0x0A]
       = (Inl IndexOutOfRange, [], \<lparr>calls = [], draws = 1\<rparr>)"
  by (simp add: resolve_eval cfgSingle_def ReadBytes_def dropLast_def s0_def exampleWorld_def)

section \<open>The mapping directives\<close>

text \<open>
  C6, as stated, fails: the directive is split on every colon, so a directive whose
  target holds a colon has more than two parts and is rejected as malformed; and an
  empty target after the only colon is not the malformed-mapping error.
\<close>

theorem colon_in_target_rejected:
  "\<forall>mu. argsHandler mu False [''US:host:25''] ''US'' = Inl (InvalidMappingFormat ''US:host:25'')
     \<and> addMapping mu Map.empty ''US:::1'' = Inl (InvalidMappingFormat ''US:::1'')
     \<and> addMapping mu Map.empty ''US:'' = Inl (InvalidTarget ''US'' [])"
  by (simp add: config_eval)

text \<open>
  C6, amended: a directive is rejected with the malformed-mapping error exactly when it
  does not hold exactly one colon.
\<close>

theorem addMapping_malformed_iff:
  "(\<exists>x. addMapping mu m v = Inl (InvalidMappingFormat x)) = (count_list v CHR '':'' \<noteq> 1)"
  by (auto simp: addMapping_def Let_def length_split)

lemma ToUpper_ascii_length: "isASCII s \<Longrightarrow> length (ToUpper mu s) = length s"
  by (simp add: ToUpper_def)

text \<open>
  C10, as stated, fails: the length that is checked is the length of the upper-cased
  token. The token of the one rune U+017F has two bytes and upper-cases to the one byte
  \<open>S\<close>, so the directive is rejected with the invalid-country-code error.
\<close>

theorem two_byte_token_rejected_by_upper_length:
  "length longS = 2
   \<and> CHR '':'' \<notin> set longS
   \<and> ToUpper exampleMapUpper longS = ''S''
   \<and> addMapping exampleMapUpper Map.empty (longS @ '':relay.example'')
       = Inl (InvalidCountryCode ''S'')
   \<and> argsHandler exampleMapUpper False [longS @ '':relay.example''] longS
       = Inl (InvalidCountryCode ''S'')"
  by (simp add: config_eval exampleMapUpper_def longS_def)

text \<open>
  C10, amended: a directive with one colon and a non-empty target is accepted exactly
  when its upper-cased country token has two bytes, whatever the bytes are, and then the
  upper-cased token becomes a key of the table and is accepted as the default country;
  otherwise the directive is rejected with the invalid-country-code error. Every ASCII
  token of two bytes, digits and symbols included, has an upper-cased form of two
  bytes. No check for letters exists.
\<close>

theorem country_token_accepted_by_upper_length:
  assumes "CHR '':'' \<notin> set tok" and "target \<noteq> []" and "CHR '':'' \<notin> set target"
  shows "(length (ToUpper mu tok) = 2 \<longrightarrow>
            addMapping mu m (tok @ '':'' @ target)
              = Inr (m(ToUpper mu tok \<mapsto> mapGet m (ToUpper mu tok) @ [target]))
            \<and> argsHandler mu False [tok @ '':'' @ target] tok
              = Inr \<lparr>destinationMap = [ToUpper mu tok \<mapsto> [target]],
                     defaultTarget = ToUpper mu tok\<rparr>)
         \<and> (length (ToUpper mu tok) \<noteq> 2 \<longrightarrow>
            addMapping mu m (tok @ '':'' @ target) = Inl (InvalidCountryCode (ToUpper mu tok)))
         \<and> (length tok = 2 \<and> isASCII tok \<longrightarrow> length (ToUpper mu tok) = 2)"
proof -
  have sp: "split CHR '':'' (tok @ CHR '':'' # target) = [tok, target]"
    using assms(1,3) by (simp add: split_one_sep)
  have a: "addMapping mu m (tok @ CHR '':'' # target)
             = Inr (m(ToUpper mu tok \<mapsto> mapGet m (ToUpper mu tok) @ [target]))"
    if "length (ToUpper mu tok) = 2" for m
    using assms(2) sp that by (simp add: addMapping_def Let_def)
  have b: "addMapping mu m (tok @ CHR '':'' # target) = Inl (InvalidCountryCode (ToUpper mu tok))"
    if "length (ToUpper mu tok) \<noteq> 2"
    using sp that by (simp add: addMapping_def Let_def)
  show ?thesis
    using a b by (simp add: argsHandler_def mapGet_def Let_def ToUpper_ascii_length)
qed

theorem country_token_accepted_by_upper_length_witness:
  "CHR '':'' \<notin> set ''12'' \<and> CHR '':'' \<notin> set ''usa''
   \<and> ''relay.example'' \<noteq> [] \<and> CHR '':'' \<notin> set ''relay.example''
   \<and> length ''12'' = 2 \<and> isASCII ''12'' \<and> length (ToUpper exampleMapUpper ''12'') = 2
   \<and> addMapping exampleMapUpper [''US'' \<mapsto> [''10.0.0.1'']] (''12'' @ '':'' @ ''relay.example'')
       = Inr [''US'' \<mapsto> [''10.0.0.1''], ''12'' \<mapsto> [''relay.example'']]
   \<and> argsHandler exampleMapUpper False [''12'' @ '':'' @ ''relay.example''] ''12''
       = Inr \<lparr>destinationMap = [''12'' \<mapsto> [''relay.example'']], defaultTarget = ''12''\<rparr>
   \<and> length (ToUpper exampleMapUpper ''usa'') \<noteq> 2
   \<and> addMapping exampleMapUpper Map.empty (''usa'' @ '':'' @ ''relay.example'')
       = Inl (InvalidCountryCode ''USA'')"
proof -
  have h1: "CHR '':'' \<notin> set ''12''" by simp
  have h1': "CHR '':'' \<notin> set ''usa''" by simp
  have h2: "''relay.example'' \<noteq> []" by simp
  have h3: "CHR '':'' \<notin> set ''relay.example''" by simp
  have h4: "length ''12'' = 2 \<and> isASCII ''12''" by (simp add: isASCII_def)
  have u1: "ToUpper exampleMapUpper ''12'' = ''12''"
    by (simp add: ToUpper_def isASCII_def toUpperChar_def)
  have u2: "ToUpper exampleMapUpper ''usa'' = ''USA''"
    by (simp add: ToUpper_def isASCII_def toUpperChar_def)
  show ?thesis
    using h1 h1' h2 h3 h4
      country_token_accepted_by_upper_length [OF h1 h2 h3, of exampleMapUpper
        "[''US'' \<mapsto> [''10.0.0.1'']]"]
      country_token_accepted_by_upper_length [OF h1' h2 h3, of exampleMapUpper Map.empty]
    by (simp add: u1 u2 mapGet_def)
qed

text \<open>
  The keys of a table that the validation has built have two bytes, so the empty string
  is not a key.
\<close>

lemma addMapping_keys:
  "addMapping mu m v = Inr m' \<Longrightarrow> \<forall>k \<in> dom m. length k = 2 \<Longrightarrow> \<forall>k \<in> dom m'. length k = 2"
  by (auto simp: addMapping_def Let_def split: if_splits)

lemma mappingLoop_keys:
  "mappingLoop mu m0 vs = Inr m \<Longrightarrow> \<forall>k \<in> dom m0. length k = 2 \<Longrightarrow> \<forall>k \<in> dom m. length k = 2"
proof (induction vs arbitrary: m0)
  case Nil
  then show ?case by simp
next
  case (Cons v vs)
  from Cons.prems(1) obtain m1 where a: "addMapping mu m0 v = Inr m1"
    and l: "mappingLoop mu m1 vs = Inr m"
    by (auto split: sum.splits)
  show ?case
    using Cons.IH [OF l] addMapping_keys [OF a Cons.prems(2)] by blast
qed

lemma argsHandler_keys:
  assumes "argsHandler mu h mapping dflt = Inr c"
  shows "\<forall>k \<in> dom (destinationMap c). length k = 2"
proof -
  from assms obtain m where l: "mappingLoop mu Map.empty mapping = Inr m"
    and c: "destinationMap c = m"
    by (auto simp: argsHandler_def Let_def split: if_splits sum.splits)
  show ?thesis
    using mappingLoop_keys [OF l] c by simp
qed

lemma argsHandler_no_empty_key:
  "argsHandler mu h mapping dflt = Inr c \<Longrightarrow> destinationMap c [] = None"
proof (cases "destinationMap c []")
  case None
  then show ?thesis by simp
next
  case (Some ts)
  assume "argsHandler mu h mapping dflt = Inr c"
  then have "\<forall>k \<in> dom (destinationMap c). length k = 2"
    by (rule argsHandler_keys)
  moreover have "[] \<in> dom (destinationMap c)"
    using Some by blast
  ultimately have "length ([] :: string) = 2"
    by blast
  then show ?thesis by simp
qed

section \<open>The default country\<close>

lemma addMapping_dom:
  "addMapping mu m v = Inr m' \<Longrightarrow>
     dom m' = insert (ToUpper mu (hd (split CHR '':'' v))) (dom m)"
  by (auto simp: addMapping_def Let_def hd_conv_nth split_not_Nil split: if_splits)

lemma mappingLoop_dom:
  "mappingLoop mu m0 vs = Inr m \<Longrightarrow>
     dom m = dom m0 \<union> (\<lambda>v. ToUpper mu (hd (split CHR '':'' v))) ` set vs"
proof (induction vs arbitrary: m0)
  case Nil
  then show ?case by simp
next
  case (Cons v vs)
  then obtain m1 where a: "addMapping mu m0 v = Inr m1" and l: "mappingLoop mu m1 vs = Inr m"
    by (auto split: sum.splits)
  show ?case
    using Cons.IH [OF l] addMapping_dom [OF a] by auto
qed

text \<open>
  C8. With \<open>m\<close> the table accumulated from the directives, the validation returns an
  error, and \<open>main\<close> exits before it listens, exactly when the upper-cased default is not
  a key of \<open>m\<close>. And whenever the upper-cased default is the upper-cased country part of no
  directive, \<open>main\<close> exits before it listens, whatever else the configuration holds. This
  holds for every behaviour of the library's upper-casing on strings that are not ASCII.
\<close>

theorem default_country_must_be_mapped:
  "(mappingLoop mu Map.empty mapping = Inr m
      \<longrightarrow> (\<exists>e. argsHandler mu False mapping dflt = Inl e) = (ToUpper mu dflt \<notin> dom m)
        \<and> (\<exists>e. main_startup mu False mapping dflt listenOk = Exited e)
            = (ToUpper mu dflt \<notin> dom m))
   \<and> ((\<forall>v \<in> set mapping. ToUpper mu (hd (split CHR '':'' v)) \<noteq> ToUpper mu dflt)
      \<longrightarrow> (\<exists>e. main_startup mu needHelp mapping dflt listenOk = Exited e))"
proof -
  have a: "(\<exists>e. argsHandler mu False mapping dflt = Inl e) = (ToUpper mu dflt \<notin> dom m)"
    if l: "mappingLoop mu Map.empty mapping = Inr m"
  proof (cases mapping)
    case Nil
    then show ?thesis using l by (auto simp: argsHandler_def)
  next
    case (Cons v vs)
    then show ?thesis using l by (auto simp: argsHandler_def Let_def)
  qed
  have st: "(\<exists>e. main_startup mu h mapping dflt listenOk = Exited e)
              = (\<exists>e. argsHandler mu h mapping dflt = Inl e)" for h
    by (auto simp: main_startup_def split: sum.splits)
  have b: "\<exists>e. argsHandler mu needHelp mapping dflt = Inl e"
    if n: "\<forall>v \<in> set mapping. ToUpper mu (hd (split CHR '':'' v)) \<noteq> ToUpper mu dflt"
  proof (cases "mappingLoop mu Map.empty mapping")
    case (Inl e)
    then show ?thesis by (simp add: argsHandler_def)
  next
    case (Inr m')
    have "ToUpper mu dflt \<notin> dom m'"
      using mappingLoop_dom [OF Inr] n by auto
    then show ?thesis
      using Inr by (auto simp: argsHandler_def Let_def)
  qed
  show ?thesis
    using a b st by blast
qed

theorem default_country_must_be_mapped_witness:
  "mappingLoop exampleMapUpper Map.empty [''US:10.0.0.1'', ''de:10.0.0.3'']
       = Inr [''US'' \<mapsto> [''10.0.0.1''], ''DE'' \<mapsto> [''10.0.0.3'']]
   \<and> argsHandler exampleMapUpper False [''US:10.0.0.1'', ''de:10.0.0.3''] ''fr''
       = Inl (DefaultNotInMap ''FR'')
   \<and> ToUpper exampleMapUpper ''fr'' \<notin> dom [''US'' \<mapsto> [''10.0.0.1''], ''DE'' \<mapsto> [''10.0.0.3'']]
   \<and> ToUpper exampleMapUpper (hd (split CHR '':'' ''US:10.0.0.1'')) \<noteq> ToUpper exampleMapUpper ''fr''
   \<and> ToUpper exampleMapUpper (hd (split CHR '':'' ''de:10.0.0.3'')) \<noteq> ToUpper exampleMapUpper ''fr''
   \<and> (\<exists>e. main_startup exampleMapUpper False [''US:10.0.0.1'', ''de:10.0.0.3''] ''fr'' True
          = Exited e)"
proof -
  have h1: "mappingLoop exampleMapUpper Map.empty [''US:10.0.0.1'', ''de:10.0.0.3'']
       = Inr [''US'' \<mapsto> [''10.0.0.1''], ''DE'' \<mapsto> [''10.0.0.3'']]"
    by (simp add: config_eval)
  have h2: "\<forall>v \<in> set [''US:10.0.0.1'', ''de:10.0.0.3''].
              ToUpper exampleMapUpper (hd (split CHR '':'' v)) \<noteq> ToUpper exampleMapUpper ''fr''"
    by (simp add: config_eval)
  have e: "argsHandler exampleMapUpper False [''US:10.0.0.1'', ''de:10.0.0.3''] ''fr''
             = Inl (DefaultNotInMap ''FR'')"
    by (simp add: config_eval)
  show ?thesis
    using h1 h2 e
      default_country_must_be_mapped [of exampleMapUpper "[''US:10.0.0.1'', ''de:10.0.0.3'']"
        "[''US'' \<mapsto> [''10.0.0.1''], ''DE'' \<mapsto> [''10.0.0.3'']]" "''fr''" True False]
    by auto
qed

section \<open>The loop over the MX hosts\<close>

lemma Intn_calls: "Intn w s n = (r, s') \<Longrightarrow> calls s' = calls s"
  by (auto simp: Intn_def split: if_splits)

lemma getIp_calls: "getIp w s m = (r, s1) \<Longrightarrow> calls s1 = calls s @ [LookupIP (Host m)]"
  by (auto simp: getIp_def logCall_def Let_def Intn_def split: sum.splits if_splits prod.splits)

lemma getCountryByIp_calls:
  "getCountryByIp w s a = (r, s1) \<Longrightarrow> calls s1 = calls s @ [GeoCountry a]"
  by (auto simp: getCountryByIp_def logCall_def Let_def split: sum.splits if_splits)

lemma getCountryByIp_answered:
  "getCountryByIp w s a = (r, s1) \<Longrightarrow>
     geoAnswered w (GeoCountry a) = (\<exists>country. r = Inr (Inr country))"
  by (auto simp: getCountryByIp_def geoAnswered_def Let_def split: sum.splits if_splits)

lemma getIp_picks:
  assumes "lookupIP w (Host m) = Inr ips" and "ips \<noteq> []"
  shows "\<exists>a s1. getIp w s m = (Inr (Inr a), s1) \<and> a \<in> set ips"
proof (cases "length ips = 1")
  case True
  then show ?thesis
    using assms by (auto simp: getIp_def Let_def)
next
  case False
  then have "1 < length ips"
    using assms(2) by (cases ips) auto
  then show ?thesis
    using assms(1) False by (auto simp: getIp_def Let_def Intn_def)
qed

text \<open>
  The calls of the loop extend the trace, and among the calls it adds at most one is a
  country lookup that returned without error.
\<close>

lemma mxLoop_trace:
  "\<exists>new. calls (snd (mxLoop w c d ms s)) = calls s @ new
         \<and> length (filter (geoAnswered w) new) \<le> 1"
proof (induction ms arbitrary: s)
  case Nil
  then show ?case by simp
next
  case (Cons m ms)
  obtain r1 s1 where g: "getIp w s m = (r1, s1)"
    by (cases "getIp w s m")
  have c1: "calls s1 = calls s @ [LookupIP (Host m)]"
    using g by (rule getIp_calls)
  have na: "\<not> geoAnswered w (LookupIP (Host m))"
    by (simp add: geoAnswered_def)
  show ?case
  proof (cases r1)
    case (Inl f)
    then show ?thesis using g c1 na by simp
  next
    case (Inr r1')
    show ?thesis
    proof (cases r1')
      case (Inl e)
      obtain new where "calls (snd (mxLoop w c d ms s1)) = calls s1 @ new"
        and "length (filter (geoAnswered w) new) \<le> 1"
        using Cons.IH [of s1] by blast
      then show ?thesis
        using g Inr Inl c1 na by simp
    next
      case a: (Inr a)
      obtain r2 s2 where h: "getCountryByIp w s1 a = (r2, s2)"
        by (cases "getCountryByIp w s1 a")
      have c2: "calls s2 = calls s @ [LookupIP (Host m), GeoCountry a]"
        using getCountryByIp_calls [OF h] c1 by simp
      have ans: "geoAnswered w (GeoCountry a) = (\<exists>country. r2 = Inr (Inr country))"
        using h by (rule getCountryByIp_answered)
      show ?thesis
      proof (cases r2)
        case (Inl f)
        then show ?thesis using g Inr a h c2 na by simp
      next
        case r2: (Inr r2')
        show ?thesis
        proof (cases r2')
          case (Inl e)
          obtain new where "calls (snd (mxLoop w c d ms s2)) = calls s2 @ new"
            and "length (filter (geoAnswered w) new) \<le> 1"
            using Cons.IH [of s2] by blast
          then show ?thesis
            using g Inr a h r2 Inl c2 na ans by simp
        next
          case country: (Inr country)
          have "calls (snd (mxLoop w c d (m # ms) s)) = calls s2"
            using g Inr a h r2 country
            by (auto split: option.splits prod.splits sum.splits dest: Intn_calls)
          then show ?thesis
            using c2 na by simp
        qed
      qed
    qed
  qed
qed

text \<open>
  C3, as stated, fails: the first MX host resolves to an address, the country lookup for
  it returns an error, and the loop goes on to the second host, resolves it and takes its
  country. Two hosts with a resolved address are consulted, and the answer comes from
  the second.
\<close>

theorem mx_iteration_continues_after_country_error:
  "getIp (exampleWorld 2 geoFirstFails 0) \<lparr>calls = [LookupMX ''example.com''], draws = 1\<rparr>
       \<lparr>Host = ''mx1.example.com'', Pref = 10\<rparr>
     = (Inr (Inr ''192.0.2.1''),
        \<lparr>calls = [LookupMX ''example.com'', LookupIP ''mx1.example.com''], draws = 1\<rparr>)
   \<and> getResult (exampleWorld 2 geoFirstFails 0) cfgScenario s0 ''user@example.com''
     = (Inr ''10.0.0.3'',
        \<lparr>calls = [LookupMX ''example.com'',
                  LookupIP ''mx1.example.com'', GeoCountry ''192.0.2.1'',
                  LookupIP ''mx2.example.com'', GeoCountry ''192.0.2.2''],
         draws = 2\<rparr>)"
  by (simp add: resolve_eval cfgScenario_def s0_def exampleWorld_def geoFirstFails_def)

text \<open>
  C3, amended. Once the address of a host is resolved and the country lookup for it
  returns without error, the iteration ends after that host, whether or not the country
  is in the table: the rest of the MX list has no effect and no further collaborator is
  called. A host whose address is not resolved is passed over, and so is a host whose
  country lookup returns an error: the loop goes on with the rest of the list from the
  state after the failed step. So for any MX list at most one country lookup that
  returned without error is ever made.
\<close>

theorem mxLoop_stops_after_country:
  "(getIp w s m = (Inr (Inr a), s1) \<and> getCountryByIp w s1 a = (Inr (Inr country), s2)
      \<longrightarrow> mxLoop w c d (m # ms) s = mxLoop w c d [m] s
          \<and> calls (snd (mxLoop w c d (m # ms) s)) = calls s2
          \<and> calls s2 = calls s @ [LookupIP (Host m), GeoCountry a])
   \<and> (getIp w s m = (Inr (Inl ipErr), s1)
      \<longrightarrow> mxLoop w c d (m # ms) s = mxLoop w c d ms s1
          \<and> calls s1 = calls s @ [LookupIP (Host m)])
   \<and> (getIp w s m = (Inr (Inr a), s1) \<and> getCountryByIp w s1 a = (Inr (Inl countryErr), s2)
      \<longrightarrow> mxLoop w c d (m # ms) s = mxLoop w c d ms s2
          \<and> calls s2 = calls s @ [LookupIP (Host m), GeoCountry a])
   \<and> length (filter (geoAnswered w)
        (drop (length (calls s)) (calls (snd (mxLoop w c d mxs s))))) \<le> 1"
proof -
  have two: "calls s2 = calls s @ [LookupIP (Host m), GeoCountry a]"
    if "getIp w s m = (r, s1)" and "getCountryByIp w s1 a = (r', s2)" for r r'
    using getIp_calls [OF that(1)] getCountryByIp_calls [OF that(2)] by simp
  have stop: "mxLoop w c d (m # ms) s = mxLoop w c d [m] s
        \<and> calls (snd (mxLoop w c d (m # ms) s)) = calls s2
        \<and> calls s2 = calls s @ [LookupIP (Host m), GeoCountry a]"
    if "getIp w s m = (Inr (Inr a), s1)" and "getCountryByIp w s1 a = (Inr (Inr country), s2)"
    using that two [OF that]
    by (auto split: option.splits prod.splits sum.splits dest: Intn_calls)
  have ipf: "mxLoop w c d (m # ms) s = mxLoop w c d ms s1
        \<and> calls s1 = calls s @ [LookupIP (Host m)]"
    if "getIp w s m = (Inr (Inl ipErr), s1)"
    using that getIp_calls [OF that] by simp
  have cf: "mxLoop w c d (m # ms) s = mxLoop w c d ms s2
        \<and> calls s2 = calls s @ [LookupIP (Host m), GeoCountry a]"
    if "getIp w s m = (Inr (Inr a), s1)" and "getCountryByIp w s1 a = (Inr (Inl countryErr), s2)"
    using that two [OF that] by simp
  have one: "length (filter (geoAnswered w)
      (drop (length (calls s)) (calls (snd (mxLoop w c d mxs s))))) \<le> 1"
    using mxLoop_trace [of w c d mxs s] by auto
  show ?thesis
    using stop ipf cf one by blast
qed

theorem mxLoop_stops_after_country_witness:
  "getIp (exampleWorld 2 (\<lambda>a. Inr ''FR'') 0) s0 mxHost1
     = (Inr (Inr ''192.0.2.1''), \<lparr>calls = [LookupIP ''mx1.example.com''], draws = 0\<rparr>)
   \<and> getCountryByIp (exampleWorld 2 (\<lambda>a. Inr ''FR'') 0)
       \<lparr>calls = [LookupIP ''mx1.example.com''], draws = 0\<rparr> ''192.0.2.1''
     = (Inr (Inr ''FR''),
        \<lparr>calls = [LookupIP ''mx1.example.com'', GeoCountry ''192.0.2.1''], draws = 0\<rparr>)
   \<and> mxLoop (exampleWorld 2 (\<lambda>a. Inr ''FR'') 0) cfgScenario ''10.0.0.1'' [mxHost1, mxHost2] s0
     = mxLoop (exampleWorld 2 (\<lambda>a. Inr ''FR'') 0) cfgScenario ''10.0.0.1'' [mxHost1] s0
   \<and> calls (snd (mxLoop (exampleWorld 2 (\<lambda>a. Inr ''FR'') 0) cfgScenario ''10.0.0.1''
        [mxHost1, mxHost2] s0))
     = [LookupIP ''mx1.example.com'', GeoCountry ''192.0.2.1'']
   \<and> getIp (exampleWorld 2 geoAllDE 0) s0 mxUnknown
     = (Inr (Inl GetIpError), \<lparr>calls = [LookupIP ''mx0.example.com''], draws = 0\<rparr>)
   \<and> mxLoop (exampleWorld 2 geoAllDE 0) cfgScenario ''10.0.0.1'' [mxUnknown, mxHost1] s0
     = mxLoop (exampleWorld 2 geoAllDE 0) cfgScenario ''10.0.0.1'' [mxHost1]
         \<lparr>calls = [LookupIP ''mx0.example.com''], draws = 0\<rparr>
   \<and> getIp (exampleWorld 2 geoFirstFails 0) s0 mxHost1
     = (Inr (Inr ''192.0.2.1''), \<lparr>calls = [LookupIP ''mx1.example.com''], draws = 0\<rparr>)
   \<and> getCountryByIp (exampleWorld 2 geoFirstFails 0)
       \<lparr>calls = [LookupIP ''mx1.example.com''], draws = 0\<rparr> ''192.0.2.1''
     = (Inr (Inl ''lookup failed''),
        \<lparr>calls = [LookupIP ''mx1.example.com'', GeoCountry ''192.0.2.1''], draws = 0\<rparr>)
   \<and> mxLoop (exampleWorld 2 geoFirstFails 0) cfgScenario ''10.0.0.1'' [mxHost1, mxHost2] s0
     = mxLoop (exampleWorld 2 geoFirstFails 0) cfgScenario ''10.0.0.1'' [mxHost2]
         \<lparr>calls = [LookupIP ''mx1.example.com'', GeoCountry ''192.0.2.1''], draws = 0\<rparr>"
proof -
  let ?s1 = "\<lparr>calls = [LookupIP ''mx1.example.com''], draws = 0\<rparr>"
  let ?s2 = "\<lparr>calls = [LookupIP ''mx1.example.com'', GeoCountry ''192.0.2.1''], draws = 0\<rparr>"
  let ?u1 = "\<lparr>calls = [LookupIP ''mx0.example.com''], draws = 0\<rparr>"
  have a1: "getIp (exampleWorld 2 geo 0) s0 mxHost1 = (Inr (Inr ''192.0.2.1''), ?s1)" for geo
    by (simp add: getIp_def logCall_def s0_def exampleWorld_def mxHost1_def)
  have a2: "getCountryByIp (exampleWorld 2 (\<lambda>a. Inr ''FR'') 0) ?s1 ''192.0.2.1''
              = (Inr (Inr ''FR''), ?s2)"
    by (simp add: getCountryByIp_def logCall_def exampleWorld_def)
  have b1: "getIp (exampleWorld 2 geoAllDE 0) s0 mxUnknown = (Inr (Inl GetIpError), ?u1)"
    by (simp add: getIp_def logCall_def s0_def exampleWorld_def mxUnknown_def)
  have c2: "getCountryByIp (exampleWorld 2 geoFirstFails 0) ?s1 ''192.0.2.1''
              = (Inr (Inl ''lookup failed''), ?s2)"
    by (simp add: getCountryByIp_def logCall_def exampleWorld_def geoFirstFails_def)
  note A = mxLoop_stops_after_country [of "exampleWorld 2 (\<lambda>a. Inr ''FR'') 0" s0 mxHost1
      "''192.0.2.1''" ?s1 "''FR''" ?s2 cfgScenario "''10.0.0.1''" "[mxHost2]"]
  note B = mxLoop_stops_after_country [of "exampleWorld 2 geoAllDE 0" s0 mxUnknown
      _ ?u1 _ _ cfgScenario "''10.0.0.1''" "[mxHost1]" GetIpError]
  note C = mxLoop_stops_after_country [of "exampleWorld 2 geoFirstFails 0" s0 mxHost1
      "''192.0.2.1''" ?s1 _ ?s2 cfgScenario "''10.0.0.1''" "[mxHost2]" _ "''lookup failed''"]
  have A': "mxLoop (exampleWorld 2 (\<lambda>a. Inr ''FR'') 0) cfgScenario ''10.0.0.1'' [mxHost1, mxHost2] s0
      = mxLoop (exampleWorld 2 (\<lambda>a. Inr ''FR'') 0) cfgScenario ''10.0.0.1'' [mxHost1] s0
    \<and> calls (snd (mxLoop (exampleWorld 2 (\<lambda>a. Inr ''FR'') 0) cfgScenario ''10.0.0.1''
        [mxHost1, mxHost2] s0)) = calls ?s2"
    using A a1 [of "\<lambda>a. Inr ''FR''"] a2 by blast
  have B': "mxLoop (exampleWorld 2 geoAllDE 0) cfgScenario ''10.0.0.1'' [mxUnknown, mxHost1] s0
     = mxLoop (exampleWorld 2 geoAllDE 0) cfgScenario ''10.0.0.1'' [mxHost1] ?u1"
    using B b1 by blast
  have C': "mxLoop (exampleWorld 2 geoFirstFails 0) cfgScenario ''10.0.0.1'' [mxHost1, mxHost2] s0
     = mxLoop (exampleWorld 2 geoFirstFails 0) cfgScenario ''10.0.0.1'' [mxHost2] ?s2"
    using C a1 [of geoFirstFails] c2 by blast
  have cs: "calls ?s2 = [LookupIP ''mx1.example.com'', GeoCountry ''192.0.2.1'']"
    by simp
  show ?thesis
    using a1 [of "\<lambda>a. Inr ''FR''"] a2 A' [unfolded cs] b1 B' a1 [of geoFirstFails] c2 C'
    by blast
qed

lemma country_error_step:
  assumes "geoOpen w" and "lookupIP w (Host m) = Inr ips" and "ips \<noteq> []"
    and "\<forall>a \<in> set ips. \<exists>e. geoCountry w a = Inl e"
  shows "\<exists>a s2. mxLoop w c d (m # ms) s = mxLoop w c d ms s2
           \<and> calls s2 = calls s @ [LookupIP (Host m), GeoCountry a]"
proof -
  obtain a s1 where g: "getIp w s m = (Inr (Inr a), s1)" and a: "a \<in> set ips"
    using getIp_picks [OF assms(2,3)] by blast
  obtain e where e: "geoCountry w a = Inl e"
    using assms(4) a by blast
  have h: "getCountryByIp w s1 a = (Inr (Inl e), logCall (GeoCountry a) s1)"
    using assms(1) e by (simp add: getCountryByIp_def)
  have "mxLoop w c d (m # ms) s = mxLoop w c d ms (logCall (GeoCountry a) s1)"
    using g h by simp
  moreover have "calls (logCall (GeoCountry a) s1) = calls s @ [LookupIP (Host m), GeoCountry a]"
    using getIp_calls [OF g] by (simp add: logCall_def)
  ultimately show ?thesis by blast
qed

lemma country_error_prefix:
  assumes "geoOpen w"
  shows "\<forall>m \<in> set pre. \<exists>ips. lookupIP w (Host m) = Inr ips \<and> ips \<noteq> []
            \<and> (\<forall>a \<in> set ips. \<exists>e. geoCountry w a = Inl e)
         \<Longrightarrow> \<exists>s' tr. mxLoop w c d (pre @ ms) s = mxLoop w c d ms s'
               \<and> calls s' = calls s @ tr
               \<and> filter isLookupIP tr = map (\<lambda>m. LookupIP (Host m)) pre
               \<and> length tr = 2 * length pre"
proof (induction pre arbitrary: s)
  case Nil
  have "mxLoop w c d ([] @ ms) s = mxLoop w c d ms s \<and> calls s = calls s @ []
        \<and> filter isLookupIP [] = map (\<lambda>m. LookupIP (Host m)) []
        \<and> length ([] :: event list) = 2 * length ([] :: mx list)"
    by simp
  then show ?case by blast
next
  case (Cons m pre)
  obtain ips where ip: "lookupIP w (Host m) = Inr ips" "ips \<noteq> []"
    "\<forall>a \<in> set ips. \<exists>e. geoCountry w a = Inl e"
    using Cons.prems by auto
  obtain a s2 where st: "mxLoop w c d (m # pre @ ms) s = mxLoop w c d (pre @ ms) s2"
    and c2: "calls s2 = calls s @ [LookupIP (Host m), GeoCountry a]"
    using country_error_step [OF assms ip] by blast
  obtain s' tr where r: "mxLoop w c d (pre @ ms) s2 = mxLoop w c d ms s'"
    and c': "calls s' = calls s2 @ tr"
    and f: "filter isLookupIP tr = map (\<lambda>m. LookupIP (Host m)) pre"
    and n: "length tr = 2 * length pre"
    using Cons.IH [of s2] Cons.prems by auto
  let ?tr = "[LookupIP (Host m), GeoCountry a] @ tr"
  have "mxLoop w c d ((m # pre) @ ms) s = mxLoop w c d ms s'"
    using st r by simp
  moreover have "calls s' = calls s @ ?tr"
    using c2 c' by simp
  moreover have "filter isLookupIP ?tr = map (\<lambda>m. LookupIP (Host m)) (m # pre)"
    using f by (simp add: isLookupIP_def)
  moreover have "length ?tr = 2 * length (m # pre)"
    using n by simp
  ultimately show ?case by blast
qed

text \<open>
  C5, as stated, fails in the case it names: when the database has no country for the
  address, the lookup returns no error and an empty country code. The loop does not go
  on to the second host, whose country is in the table: it ends at the first host and
  the answer is the fallback.
\<close>

theorem country_lookup_not_found_ends_iteration:
  "geoCountry (exampleWorld 2 geoFirstNotFound 0) ''192.0.2.1'' = Inr []
   \<and> geoCountry (exampleWorld 2 geoFirstNotFound 0) ''192.0.2.2'' = Inr ''DE''
   \<and> getResult (exampleWorld 2 geoFirstNotFound 0) cfgScenario s0 ''user@example.com''
     = (Inr ''10.0.0.1'',
        \<lparr>calls = [LookupMX ''example.com'',
                  LookupIP ''mx1.example.com'', GeoCountry ''192.0.2.1''],
         draws = 1\<rparr>)"
  by (simp add: resolve_eval cfgScenario_def s0_def exampleWorld_def geoFirstNotFound_def)

text \<open>
  C5, amended. When the addresses of the first hosts of the MX list are resolved and the
  country lookups for them return errors, each of these hosts is consulted, in the
  order of the list, with one address lookup and one country lookup, and the loop goes
  on with the hosts after them. A lookup that returns no error and the empty country code
  is not a failure: for a table built by the validation the loop ends at that host with
  the destination unchanged.
\<close>

theorem country_lookup_errors_fall_through:
  "(geoOpen w
      \<and> (\<forall>m \<in> set pre. \<exists>ips. lookupIP w (Host m) = Inr ips \<and> ips \<noteq> []
            \<and> (\<forall>a \<in> set ips. \<exists>e. geoCountry w a = Inl e))
      \<longrightarrow> (\<exists>s' tr. mxLoop w c d (pre @ ms) s = mxLoop w c d ms s'
               \<and> calls s' = calls s @ tr
               \<and> filter isLookupIP tr = map (\<lambda>m. LookupIP (Host m)) pre
               \<and> length tr = 2 * length pre))
   \<and> (argsHandler mu h mapping dflt = Inr c' \<and> geoOpen w
        \<and> getIp w s m = (Inr (Inr a), s1) \<and> geoCountry w a = Inr []
      \<longrightarrow> mxLoop w c' d (m # ms) s = (Inr d, logCall (GeoCountry a) s1))"
proof -
  have "mxLoop w c' d (m # ms) s = (Inr d, logCall (GeoCountry a) s1)"
    if "argsHandler mu h mapping dflt = Inr c'" and "geoOpen w"
      and "getIp w s m = (Inr (Inr a), s1)" and "geoCountry w a = Inr []"
    using that argsHandler_no_empty_key [OF that(1)]
    by (simp add: getCountryByIp_def)
  then show ?thesis
    using country_error_prefix [of w pre c d ms s] by blast
qed

theorem country_lookup_errors_fall_through_witness:
  "geoOpen (exampleWorld 2 geoAllFail 0)
   \<and> lookupIP (exampleWorld 2 geoAllFail 0) (Host mxHost1) = Inr [''192.0.2.1'']
   \<and> lookupIP (exampleWorld 2 geoAllFail 0) (Host mxHost2) = Inr [''192.0.2.2'']
   \<and> geoCountry (exampleWorld 2 geoAllFail 0) ''192.0.2.1'' = Inl ''lookup failed''
   \<and> geoCountry (exampleWorld 2 geoAllFail 0) ''192.0.2.2'' = Inl ''lookup failed''
   \<and> (\<exists>s' tr. mxLoop (exampleWorld 2 geoAllFail 0) cfgScenario ''10.0.0.1''
                ([mxHost1, mxHost2] @ [mxUnknown]) s0
              = mxLoop (exampleWorld 2 geoAllFail 0) cfgScenario ''10.0.0.1'' [mxUnknown] s'
          \<and> calls s' = calls s0 @ tr
          \<and> filter isLookupIP tr = map (\<lambda>m. LookupIP (Host m)) [mxHost1, mxHost2]
          \<and> length tr = 2 * length [mxHost1, mxHost2])
   \<and> argsHandler exampleMapUpper False [''US:10.0.0.1'', ''US:10.0.0.2'', ''DE:10.0.0.3''] ''US''
       = Inr cfgScenario
   \<and> geoOpen (exampleWorld 2 geoFirstNotFound 0)
   \<and> getIp (exampleWorld 2 geoFirstNotFound 0) s0 mxHost1
       = (Inr (Inr ''192.0.2.1''), \<lparr>calls = [LookupIP ''mx1.example.com''], draws = 0\<rparr>)
   \<and> geoCountry (exampleWorld 2 geoFirstNotFound 0) ''192.0.2.1'' = Inr []
   \<and> mxLoop (exampleWorld 2 geoFirstNotFound 0) cfgScenario ''10.0.0.1'' [mxHost1, mxHost2] s0
       = (Inr ''10.0.0.1'',
          logCall (GeoCountry ''192.0.2.1'') \<lparr>calls = [LookupIP ''mx1.example.com''], draws = 0\<rparr>)"
proof -
  let ?W = "exampleWorld 2 geoAllFail 0"
  let ?N = "exampleWorld 2 geoFirstNotFound 0"
  let ?s1 = "\<lparr>calls = [LookupIP ''mx1.example.com''], draws = 0\<rparr>"
  have op: "geoOpen (exampleWorld 2 geo 0)" for geo
    by (simp add: exampleWorld_def)
  have i1: "lookupIP ?W (Host mxHost1) = Inr [''192.0.2.1'']"
    by (simp add: exampleWorld_def mxHost1_def)
  have i2: "lookupIP ?W (Host mxHost2) = Inr [''192.0.2.2'']"
    by (simp add: exampleWorld_def mxHost2_def)
  have g: "geoCountry ?W a = Inl ''lookup failed''" for a
    by (simp add: exampleWorld_def geoAllFail_def)
  have pre: "\<forall>m \<in> set [mxHost1, mxHost2]. \<exists>ips. lookupIP ?W (Host m) = Inr ips \<and> ips \<noteq> []
            \<and> (\<forall>a \<in> set ips. \<exists>e. geoCountry ?W a = Inl e)"
    using i1 i2 g by simp
  note T1 = country_lookup_errors_fall_through [of ?W "[mxHost1, mxHost2]" cfgScenario
      "''10.0.0.1''" "[mxUnknown]" s0]
  have c1: "\<exists>s' tr. mxLoop ?W cfgScenario ''10.0.0.1'' ([mxHost1, mxHost2] @ [mxUnknown]) s0
              = mxLoop ?W cfgScenario ''10.0.0.1'' [mxUnknown] s'
          \<and> calls s' = calls s0 @ tr
          \<and> filter isLookupIP tr = map (\<lambda>m. LookupIP (Host m)) [mxHost1, mxHost2]
          \<and> length tr = 2 * length [mxHost1, mxHost2]"
    using T1 op [of geoAllFail] pre by blast
  have gi: "getIp ?N s0 mxHost1 = (Inr (Inr ''192.0.2.1''), ?s1)"
    by (simp add: getIp_def logCall_def s0_def exampleWorld_def mxHost1_def)
  have nf: "geoCountry ?N ''192.0.2.1'' = Inr []"
    by (simp add: exampleWorld_def geoFirstNotFound_def)
  note T2 = country_lookup_errors_fall_through [where w = ?N and s = s0 and mu = exampleMapUpper
      and h = False and mapping = "[''US:10.0.0.1'', ''US:10.0.0.2'', ''DE:10.0.0.3'']"
      and dflt = "''US''" and c' = cfgScenario and m = mxHost1 and a = "''192.0.2.1''"
      and ?s1.0 = ?s1 and d = "''10.0.0.1''" and ms = "[mxHost2]"]
  have c2: "mxLoop ?N cfgScenario ''10.0.0.1'' [mxHost1, mxHost2] s0
       = (Inr ''10.0.0.1'', logCall (GeoCountry ''192.0.2.1'') ?s1)"
    using T2 cfgScenario_built [of exampleMapUpper] op [of geoFirstNotFound] gi nf by blast
  show ?thesis
    using op [of geoAllFail] i1 i2 g [of "''192.0.2.1''"] g [of "''192.0.2.2''"] c1
      cfgScenario_built [of exampleMapUpper] op [of geoFirstNotFound] gi nf c2
    by blast
qed

section \<open>Malformed lines\<close>

lemma pickDefault_calls: "pickDefault w c s = (r, s1) \<Longrightarrow> calls s1 = calls s"
  by (auto simp: pickDefault_def Intn_def split: if_splits sum.splits)

lemma pickDefault_member:
  "pickDefault w c s = (Inr t, s1) \<Longrightarrow> t \<in> set (mapGet (destinationMap c) (defaultTarget c))"
  by (auto simp: pickDefault_def Intn_def sliceIndex_def split: if_splits sum.splits)

lemma getEmailDomain_error_iff:
  "(\<exists>e. getEmailDomain email = Inl e) = (count_list email CHR ''@'' \<noteq> 1)"
  by (auto simp: getEmailDomain_def Let_def length_split)

lemma getEmailDomain_one_at:
  "CHR ''@'' \<notin> set l \<Longrightarrow> CHR ''@'' \<notin> set dm \<Longrightarrow> getEmailDomain (l @ CHR ''@'' # dm) = Inr dm"
  by (simp add: getEmailDomain_def split_one_sep)

text \<open>
  C4, as stated, fails for an empty local part and for an empty domain: the split of
  \<open>@example.com\<close> and of \<open>user@\<close> has two parts, so the line is taken as an address, the MX
  lookup is made with the second part, and for \<open>@example.com\<close> the answer is a target
  that is not in the default country's list.
\<close>

theorem empty_part_reaches_mx_lookup:
  "getResult (exampleWorld 2 geoAllDE 0) cfgScenario s0 ''@example.com''
     = (Inr ''10.0.0.3'',
        \<lparr>calls = [LookupMX ''example.com'', LookupIP ''mx1.example.com'', GeoCountry ''192.0.2.1''],
         draws = 2\<rparr>)
   \<and> ''10.0.0.3'' \<notin> set (mapGet (destinationMap cfgScenario) (defaultTarget cfgScenario))
   \<and> getResult (exampleWorld 2 geoAllDE 0) cfgScenario s0 ''user@''
     = (Inr ''10.0.0.1'', \<lparr>calls = [LookupMX []], draws = 1\<rparr>)"
  by (simp add: resolve_eval cfgScenario_def s0_def exampleWorld_def geoAllDE_def)

text \<open>
  C4, amended. For a line that does not hold exactly one \<open>@\<close>, \<open>getResult\<close> is the
  fallback pick and nothing else: no collaborator is called, and a target it returns is
  an element of the default country's list. For a line with exactly one \<open>@\<close>, whatever
  stands before and after it, the MX lookup is made for the part after the \<open>@\<close> once the
  fallback is picked.
\<close>

theorem getResult_malformed_line:
  "(count_list email CHR ''@'' \<noteq> 1
      \<longrightarrow> getResult w c s email = pickDefault w c s
          \<and> calls (snd (getResult w c s email)) = calls s
          \<and> (\<forall>t. fst (getResult w c s email) = Inr t
                 \<longrightarrow> t \<in> set (mapGet (destinationMap c) (defaultTarget c))))
   \<and> (CHR ''@'' \<notin> set l \<and> CHR ''@'' \<notin> set dm \<and> pickDefault w c s = (Inr t', s1)
      \<longrightarrow> (\<exists>tr. calls (snd (getResult w c s (l @ CHR ''@'' # dm)))
                  = calls s @ LookupMX dm # tr))"
proof -
  have a: "getResult w c s email = pickDefault w c s
          \<and> calls (snd (getResult w c s email)) = calls s
          \<and> (\<forall>t. fst (getResult w c s email) = Inr t
                 \<longrightarrow> t \<in> set (mapGet (destinationMap c) (defaultTarget c)))"
    if n: "count_list email CHR ''@'' \<noteq> 1"
  proof -
    obtain e where e: "getEmailDomain email = Inl e"
      using n getEmailDomain_error_iff [of email] by blast
    obtain r s1 where p: "pickDefault w c s = (r, s1)"
      by (cases "pickDefault w c s")
    have g: "getResult w c s email = pickDefault w c s"
      using e p by (cases r) (simp_all add: getResult_def)
    show ?thesis
      using g p pickDefault_calls [OF p] pickDefault_member [of w c s _ s1] by auto
  qed
  have b: "\<exists>tr. calls (snd (getResult w c s (l @ CHR ''@'' # dm))) = calls s @ LookupMX dm # tr"
    if l: "CHR ''@'' \<notin> set l" and d: "CHR ''@'' \<notin> set dm" and p: "pickDefault w c s = (Inr t', s1)"
  proof -
    let ?s2 = "logCall (LookupMX dm) s1"
    have c2: "calls ?s2 = calls s @ [LookupMX dm]"
      using pickDefault_calls [OF p] by (simp add: logCall_def)
    show ?thesis
    proof (cases "lookupMX w dm")
      case (Inl e)
      then have "getResult w c s (l @ CHR ''@'' # dm) = (Inr t', ?s2)"
        using p getEmailDomain_one_at [OF l d] by (simp add: getResult_def getMx_def)
      then show ?thesis
        using c2 by simp
    next
      case (Inr mxs)
      then have "getResult w c s (l @ CHR ''@'' # dm) = mxLoop w c t' mxs ?s2"
        using p getEmailDomain_one_at [OF l d] by (simp add: getResult_def getMx_def)
      moreover obtain new where "calls (snd (mxLoop w c t' mxs ?s2)) = calls ?s2 @ new"
        using mxLoop_trace [of w c t' mxs ?s2] by blast
      ultimately show ?thesis
        using c2 by simp
    qed
  qed
  show ?thesis
    using a b by blast
qed

theorem getResult_malformed_line_witness:
  "count_list ''a@b@c'' CHR ''@'' \<noteq> 1
   \<and> getResult (exampleWorld 2 geoAllDE 1) cfgScenario s0 ''a@b@c''
       = pickDefault (exampleWorld 2 geoAllDE 1) cfgScenario s0
   \<and> calls (snd (getResult (exampleWorld 2 geoAllDE 1) cfgScenario s0 ''a@b@c'')) = calls s0
   \<and> fst (getResult (exampleWorld 2 geoAllDE 1) cfgScenario s0 ''a@b@c'') = Inr ''10.0.0.2''
   \<and> ''10.0.0.2'' \<in> set (mapGet (destinationMap cfgScenario) (defaultTarget cfgScenario))
   \<and> CHR ''@'' \<notin> set [] \<and> CHR ''@'' \<notin> set ''example.com''
   \<and> pickDefault (exampleWorld 2 geoAllDE 1) cfgScenario s0
       = (Inr ''10.0.0.2'', \<lparr>calls = [], draws = 1\<rparr>)
   \<and> (\<exists>tr. calls (snd (getResult (exampleWorld 2 geoAllDE 1) cfgScenario s0
                          ([] @ CHR ''@'' # ''example.com'')))
            = calls s0 @ LookupMX ''example.com'' # tr)"
proof -
  let ?W = "exampleWorld 2 geoAllDE 1"
  have h: "count_list ''a@b@c'' CHR ''@'' \<noteq> 1" by simp
  have r: "fst (getResult ?W cfgScenario s0 ''a@b@c'') = Inr ''10.0.0.2''"
    by (simp add: resolve_eval cfgScenario_def s0_def exampleWorld_def)
  have n1: "CHR ''@'' \<notin> set []" by simp
  have n2: "CHR ''@'' \<notin> set ''example.com''" by simp
  have p: "pickDefault ?W cfgScenario s0 = (Inr ''10.0.0.2'', \<lparr>calls = [], draws = 1\<rparr>)"
    by (simp add: resolve_eval cfgScenario_def s0_def exampleWorld_def)
  note A = getResult_malformed_line [of "''a@b@c''" ?W cfgScenario s0]
  note B = getResult_malformed_line [of _ ?W cfgScenario s0 "[]" "''example.com''"
      "''10.0.0.2''" "\<lparr>calls = [], draws = 1\<rparr>"]
  have a: "getResult ?W cfgScenario s0 ''a@b@c'' = pickDefault ?W cfgScenario s0
     \<and> calls (snd (getResult ?W cfgScenario s0 ''a@b@c'')) = calls s0
     \<and> ''10.0.0.2'' \<in> set (mapGet (destinationMap cfgScenario) (defaultTarget cfgScenario))"
    using A h r by blast
  have b: "\<exists>tr. calls (snd (getResult ?W cfgScenario s0 ([] @ CHR ''@'' # ''example.com'')))
            = calls s0 @ LookupMX ''example.com'' # tr"
    using B n1 n2 p by blast
  show ?thesis
    using h a r n1 n2 p b by blast
qed

section \<open>The end-to-end scenario\<close>

lemma handleConnection_one_line:
  assumes "getResult w c s line = (Inr t, s1)" and "CHR 0x0A \<notin> set line"
  shows "handleConnection w c s (line @ [CHR 0x0A]) = (Inr (), [genPostfixResponse t], s1)"
proof -
  have tw: "takeWhile (\<lambda>c. c \<noteq> CHR 0x0A) (line @ [CHR 0x0A]) = line"
    using assms(2) by (induction line) auto
  have dw: "dropWhile (\<lambda>c. c \<noteq> CHR 0x0A) (line @ [CHR 0x0A]) = [CHR 0x0A]"
    using assms(2) by (induction line) auto
  have r: "ReadBytes (CHR 0x0A) (line @ [CHR 0x0A]) = ((line @ [CHR 0x0A], False), [])"
    by (simp add: ReadBytes_def tw dw)
  have d: "dropLast (line @ [CHR 0x0A]) = Inr line"
    by (simp add: dropLast_def)
  have e: "ReadBytes (CHR 0x0A) [] = (([], True), [])"
    by (simp add: ReadBytes_def)
  show ?thesis
    by (simp add: r d e assms(1))
qed

lemma scenario_fallback:
  "\<exists>t s1. pickDefault w cfgScenario s = (Inr t, s1) \<and> (t = ''10.0.0.1'' \<or> t = ''10.0.0.2'')"
proof -
  have "rnd w (draws s) mod Suc (Suc 0) = 0 \<or> rnd w (draws s) mod Suc (Suc 0) = Suc 0"
    by arith
  then show ?thesis
    by (auto simp: pickDefault_def Intn_def sliceIndex_def mapGet_def cfgScenario_def)
qed

lemma user_example_domain: "getEmailDomain ''user@example.com'' = Inr ''example.com''"
  by (simp add: getEmailDomain_def)

lemma scenario_getResult:
  assumes mx: "lookupMX w ''example.com'' = Inr [m]"
    and ip: "lookupIP w (Host m) = Inr ips" "ips \<noteq> []"
    and op: "geoOpen w"
  shows "(\<forall>a \<in> set ips. geoCountry w a = Inr ''DE'')
           \<Longrightarrow> \<exists>s1. getResult w cfgScenario s ''user@example.com'' = (Inr ''10.0.0.3'', s1)"
    and "(\<forall>a \<in> set ips. \<exists>e. geoCountry w a = Inl e)
           \<Longrightarrow> \<exists>t s1. getResult w cfgScenario s ''user@example.com'' = (Inr t, s1)
                 \<and> (t = ''10.0.0.1'' \<or> t = ''10.0.0.2'')"
proof -
  obtain t s1 where p: "pickDefault w cfgScenario s = (Inr t, s1)"
    and t: "t = ''10.0.0.1'' \<or> t = ''10.0.0.2''"
    using scenario_fallback by blast
  let ?s2 = "logCall (LookupMX ''example.com'') s1"
  obtain a s3 where g: "getIp w ?s2 m = (Inr (Inr a), s3)" and a: "a \<in> set ips"
    using getIp_picks [OF ip] by blast
  have r: "getResult w cfgScenario s ''user@example.com'' = mxLoop w cfgScenario t [m] ?s2"
    by (simp add: getResult_def p user_example_domain getMx_def mx)
  {
    assume "\<forall>a \<in> set ips. geoCountry w a = Inr ''DE''"
    then have "geoCountry w a = Inr ''DE''"
      using a by blast
    then have "fst (mxLoop w cfgScenario t [m] ?s2) = Inr ''10.0.0.3''"
      using g op by (simp add: getCountryByIp_def Let_def cfgScenario_def Intn_def sliceIndex_def)
    then show "\<exists>s1. getResult w cfgScenario s ''user@example.com'' = (Inr ''10.0.0.3'', s1)"
      using r by (metis prod.collapse)
  }
  {
    assume "\<forall>a \<in> set ips. \<exists>e. geoCountry w a = Inl e"
    then obtain e where "geoCountry w a = Inl e"
      using a by blast
    then have "fst (mxLoop w cfgScenario t [m] ?s2) = Inr t"
      using g op by (simp add: getCountryByIp_def Let_def)
    then show "\<exists>t s1. getResult w cfgScenario s ''user@example.com'' = (Inr t, s1)
                 \<and> (t = ''10.0.0.1'' \<or> t = ''10.0.0.2'')"
      using r t by (metis prod.collapse)
  }
qed

text \<open>
  C7. The configuration is the one the validation builds from the directives
  \<open>US:10.0.0.1\<close>, \<open>US:10.0.0.2\<close>, \<open>DE:10.0.0.3\<close> with default \<open>US\<close>; the domain
  \<open>example.com\<close> has one MX host, whose name resolves to at least one address. The client
  sends the line \<open>user@example.com\<close>. If the country of the host's addresses is \<open>DE\<close>, the
  handler writes exactly the line \<open>200 relay:[10.0.0.3]\<close>; if the country lookup returns
  an error, it writes \<open>200 relay:[10.0.0.1]\<close> or \<open>200 relay:[10.0.0.2]\<close>. In both cases it
  then closes the connection at the end of the stream.
\<close>

theorem end_to_end_scenario:
  assumes cfg: "argsHandler mu False [''US:10.0.0.1'', ''US:10.0.0.2'', ''DE:10.0.0.3''] ''US'' = Inr c"
    and mx: "lookupMX w ''example.com'' = Inr [m]"
    and ip: "lookupIP w (Host m) = Inr ips" "ips \<noteq> []"
    and op: "geoOpen w"
  shows "((\<forall>a \<in> set ips. geoCountry w a = Inr ''DE'')
            \<longrightarrow> (\<exists>s1. handleConnection w c s (''user@example.com'' @ [CHR 0x0A])
                       = (Inr (), [''200 relay:[10.0.0.3]'' @ [CHR 0x0A]], s1)))
         \<and> ((\<forall>a \<in> set ips. \<exists>e. geoCountry w a = Inl e)
            \<longrightarrow> (\<exists>s1. handleConnection w c s (''user@example.com'' @ [CHR 0x0A])
                         = (Inr (), [''200 relay:[10.0.0.1]'' @ [CHR 0x0A]], s1)
                     \<or> handleConnection w c s (''user@example.com'' @ [CHR 0x0A])
                         = (Inr (), [''200 relay:[10.0.0.2]'' @ [CHR 0x0A]], s1)))"
proof -
  have c: "c = cfgScenario"
    using cfg cfgScenario_built [of mu] by simp
  have nl: "CHR 0x0A \<notin> set ''user@example.com''"
    by simp
  have one: "handleConnection w c s (''user@example.com'' @ [CHR 0x0A])
               = (Inr (), [''200 relay:['' @ t @ '']'' @ [CHR 0x0A]], s1)"
    if "getResult w cfgScenario s ''user@example.com'' = (Inr t, s1)" for t s1
    using handleConnection_one_line [OF that nl] c by (simp add: genPostfixResponse_def)
  show ?thesis
  proof (intro conjI impI)
    assume "\<forall>a \<in> set ips. geoCountry w a = Inr ''DE''"
    then obtain s1 where "getResult w cfgScenario s ''user@example.com'' = (Inr ''10.0.0.3'', s1)"
      using scenario_getResult(1) [OF mx ip op] by blast
    from one [OF this] show "\<exists>s1. handleConnection w c s (''user@example.com'' @ [CHR 0x0A])
                       = (Inr (), [''200 relay:[10.0.0.3]'' @ [CHR 0x0A]], s1)"
      by auto
  next
    assume "\<forall>a \<in> set ips. \<exists>e. geoCountry w a = Inl e"
    then obtain t s1 where g: "getResult w cfgScenario s ''user@example.com'' = (Inr t, s1)"
      and t: "t = ''10.0.0.1'' \<or> t = ''10.0.0.2''"
      using scenario_getResult(2) [OF mx ip op] by blast
    from one [OF g] t
    show "\<exists>s1. handleConnection w c s (''user@example.com'' @ [CHR 0x0A])
                         = (Inr (), [''200 relay:[10.0.0.1]'' @ [CHR 0x0A]], s1)
                     \<or> handleConnection w c s (''user@example.com'' @ [CHR 0x0A])
                         = (Inr (), [''200 relay:[10.0.0.2]'' @ [CHR 0x0A]], s1)"
      by auto
  qed
qed

theorem end_to_end_scenario_witness:
  "argsHandler exampleMapUpper False [''US:10.0.0.1'', ''US:10.0.0.2'', ''DE:10.0.0.3''] ''US''
     = Inr cfgScenario
   \<and> lookupMX (exampleWorld 1 geoAllDE 0) ''example.com''
       = Inr [\<lparr>Host = ''mx1.example.com'', Pref = 10\<rparr>]
   \<and> lookupIP (exampleWorld 1 geoAllDE 0) ''mx1.example.com'' = Inr [''192.0.2.1'']
   \<and> geoOpen (exampleWorld 1 geoAllDE 0)
   \<and> geoCountry (exampleWorld 1 geoAllDE 0) ''192.0.2.1'' = Inr ''DE''
   \<and> (\<exists>s1. handleConnection (exampleWorld 1 geoAllDE 0) cfgScenario s0
              (''user@example.com'' @ [CHR 0x0A])
            = (Inr (), [''200 relay:[10.0.0.3]'' @ [CHR 0x0A]], s1))
   \<and> lookupMX (exampleWorld 1 geoAllFail 1) ''example.com''
       = Inr [\<lparr>Host = ''mx1.example.com'', Pref = 10\<rparr>]
   \<and> lookupIP (exampleWorld 1 geoAllFail 1) ''mx1.example.com'' = Inr [''192.0.2.1'']
   \<and> geoOpen (exampleWorld 1 geoAllFail 1)
   \<and> geoCountry (exampleWorld 1 geoAllFail 1) ''192.0.2.1'' = Inl ''lookup failed''
   \<and> (\<exists>s1. handleConnection (exampleWorld 1 geoAllFail 1) cfgScenario s0
              (''user@example.com'' @ [CHR 0x0A])
            = (Inr (), [''200 relay:[10.0.0.1]'' @ [CHR 0x0A]], s1)
          \<or> handleConnection (exampleWorld 1 geoAllFail 1) cfgScenario s0
              (''user@example.com'' @ [CHR 0x0A])
            = (Inr (), [''200 relay:[10.0.0.2]'' @ [CHR 0x0A]], s1))"
proof -
  let ?m = "\<lparr>Host = ''mx1.example.com'', Pref = 10\<rparr>"
  have mx: "lookupMX (exampleWorld 1 geo r) ''example.com'' = Inr [?m]" for geo r
    by (simp add: exampleWorld_def)
  have ip: "lookupIP (exampleWorld 1 geo r) (Host ?m) = Inr [''192.0.2.1'']" for geo r
    by (simp add: exampleWorld_def)
  have ne: "[''192.0.2.1''] \<noteq> ([] :: ip list)"
    by simp
  have op: "geoOpen (exampleWorld 1 geo r)" for geo r
    by (simp add: exampleWorld_def)
  have de: "\<forall>a \<in> set [''192.0.2.1'']. geoCountry (exampleWorld 1 geoAllDE 0) a = Inr ''DE''"
    by (simp add: exampleWorld_def geoAllDE_def)
  have fl: "\<forall>a \<in> set [''192.0.2.1'']. \<exists>e. geoCountry (exampleWorld 1 geoAllFail 1) a = Inl e"
    by (simp add: exampleWorld_def geoAllFail_def)
  have g1: "geoCountry (exampleWorld 1 geoAllDE 0) ''192.0.2.1'' = Inr ''DE''"
    by (simp add: exampleWorld_def geoAllDE_def)
  have g2: "geoCountry (exampleWorld 1 geoAllFail 1) ''192.0.2.1'' = Inl ''lookup failed''"
    by (simp add: exampleWorld_def geoAllFail_def)
  note a = end_to_end_scenario [OF cfgScenario_built [of exampleMapUpper] mx ip ne op,
      of geoAllDE 0 s0]
  note b = end_to_end_scenario [OF cfgScenario_built [of exampleMapUpper] mx ip ne op,
      of geoAllFail 1 s0]
  have c1: "\<exists>s1. handleConnection (exampleWorld 1 geoAllDE 0) cfgScenario s0
              (''user@example.com'' @ [CHR 0x0A])
            = (Inr (), [''200 relay:[10.0.0.3]'' @ [CHR 0x0A]], s1)"
    using a de by blast
  have c2: "\<exists>s1. handleConnection (exampleWorld 1 geoAllFail 1) cfgScenario s0
              (''user@example.com'' @ [CHR 0x0A])
            = (Inr (), [''200 relay:[10.0.0.1]'' @ [CHR 0x0A]], s1)
          \<or> handleConnection (exampleWorld 1 geoAllFail 1) cfgScenario s0
              (''user@example.com'' @ [CHR 0x0A])
            = (Inr (), [''200 relay:[10.0.0.2]'' @ [CHR 0x0A]], s1)"
    using b fl by blast
  show ?thesis
    using cfgScenario_built [of exampleMapUpper] mx [of geoAllDE 0] mx [of geoAllFail 1]
      ip [of geoAllDE 0] ip [of geoAllFail 1] op g1 g2 c1 c2
    by (simp only: mx.simps)
qed

end
